theory Spec2Isabelle
  imports Complex_Main "HOL-Library.AList"
begin

section \<open>Exceptions and results\<close>

text \<open>
  The Python exceptions that the modelled code raises. A method that mutates its object
  and may raise is a function from the object to a result and the object as it is when the
  call ends: what was assigned before a \<open>raise\<close> stays assigned.
\<close>

datatype error =
    ValueError | TypeError | KeyError | IndexError | AttributeError
  | ZeroDivisionError | AssertionError | BackTestCompletedError | ConditionNotFoundError

type_synonym ('s, 'a) action = "'s \<Rightarrow> (error + 'a) \<times> 's"

definition py_return :: "'a \<Rightarrow> ('s, 'a) action" where
  "py_return x s = (Inr x, s)"

definition py_raise :: "error \<Rightarrow> ('s, 'a) action" where
  "py_raise e s = (Inl e, s)"

definition py_bind :: "('s, 'a) action \<Rightarrow> ('a \<Rightarrow> ('s, 'b) action) \<Rightarrow> ('s, 'b) action" where
  "py_bind m f s = (case m s of (Inl e, s') \<Rightarrow> (Inl e, s') | (Inr x, s') \<Rightarrow> f x s')"

definition bind_err :: "error + 'a \<Rightarrow> ('a \<Rightarrow> error + 'b) \<Rightarrow> error + 'b" where
  "bind_err m f = (case m of Inl e \<Rightarrow> Inl e | Inr x \<Rightarrow> f x)"

text \<open>\<open>try: m except ValueError as e: raise err from e\<close>\<close>

definition except_ValueError :: "('s, 'a) action \<Rightarrow> error \<Rightarrow> ('s, 'a) action" where
  "except_ValueError m err s =
     (case m s of (Inl e, s') \<Rightarrow> (Inl (if e = ValueError then err else e), s') | r \<Rightarrow> r)"

section \<open>Strings\<close>

definition endswith :: "string \<Rightarrow> string \<Rightarrow> bool" where
  "endswith s t = (length t \<le> length s \<and> drop (length s - length t) s = t)"

text \<open>\<open>s[:-k]\<close> for a positive \<open>k\<close>\<close>

definition but_last_n :: "nat \<Rightarrow> string \<Rightarrow> string" where
  "but_last_n k s = take (length s - k) s"

text \<open>\<open>s.strip(c)\<close> for a one-character \<open>c\<close>\<close>

definition strip :: "char \<Rightarrow> string \<Rightarrow> string" where
  "strip c s = rev (dropWhile (\<lambda>x. x = c) (rev (dropWhile (\<lambda>x. x = c) s)))"

fun str_nat :: "nat \<Rightarrow> string" where
  "str_nat n = (if n < 10 then [''0123456789'' ! n]
                else str_nat (n div 10) @ [''0123456789'' ! (n mod 10)])"

declare str_nat.simps [simp del]

definition str_int :: "int \<Rightarrow> string" where
  "str_int k = (if k < 0 then CHR ''-'' # str_nat (nat (- k)) else str_nat (nat k))"

section \<open>Float (mocks/number.py)\<close>

text \<open>
  Python floats are read as rational numbers: the finite values with exact arithmetic.
  NaN appears only as a missing cell of a data frame (below); infinities and the rounding of
  binary floating point are outside the model.

  \<open>round(x, ndigits)\<close> rounds to the nearest multiple of \<open>10 ^ -ndigits\<close>, ties to the
  even one.
\<close>

definition round_half_even :: "rat \<Rightarrow> int" where
  "round_half_even y =
     (let f = \<lfloor>y\<rfloor>; d = y - of_int f
      in if d < 1 / 2 then f else if 1 / 2 < d then f + 1
         else if even f then f else f + 1)"

definition py_round :: "rat \<Rightarrow> nat \<Rightarrow> rat" where
  "py_round x ndigits = of_int (round_half_even (x * 10 ^ ndigits)) / 10 ^ ndigits"

text \<open>\<open>int(x)\<close> of a float truncates towards zero.\<close>

definition py_int :: "rat \<Rightarrow> int" where
  "py_int x = (if 0 \<le> x then \<lfloor>x\<rfloor> else \<lceil>x\<rceil>)"

text \<open>
  \<open>class Float(float)\<close> defines \<open>__init__\<close> and no \<open>__new__\<close>. A call \<open>Float(x)\<close> is
  \<open>float.__new__(Float, x)\<close>, which fixes the number the instance is, followed by
  \<open>Float.__init__(instance, x)\<close>. A float is immutable, so what \<open>__init__\<close> does with its
  local variable \<open>val\<close> cannot reach the instance: the last use of \<open>val\<close> is
  \<open>float.__init__(val or float())\<close>, the initialiser of \<open>object\<close> applied to that other
  number. The one effect of \<open>__init__\<close> on the instance is the attribute \<open>act\<close>.
\<close>

record Float =
  fval :: rat
  act :: rat

text \<open>\<open>float.__init__(x)\<close>\<close>

definition float_init :: "rat \<Rightarrow> unit" where
  "float_init x = ()"

text \<open>
  \<open>Float.__init__(self, val)\<close> for a number \<open>val\<close>; \<open>self\<close> is the number made by
  \<open>float.__new__\<close>. \<open>str(val)\<close> of a number does not end with \<open>*\<close>.
\<close>

definition Float_init_num :: "rat \<Rightarrow> rat \<Rightarrow> Float" where
  "Float_init_num self val =
     (let val = (if val \<noteq> 0 then py_round val 3 else val);
          u = float_init (if val \<noteq> 0 then val else 0)
      in \<lparr>fval = self, act = 0\<rparr>)"

text \<open>\<open>Float(x)\<close> for a number \<open>x\<close>\<close>

definition Float_num :: "rat \<Rightarrow> Float" where
  "Float_num x = Float_init_num x x"

text \<open>\<open>Float()\<close>: \<open>float.__new__(Float)\<close> is \<open>0.0\<close>, and \<open>val\<close> is \<open>None\<close>\<close>

definition Float_noarg :: Float where
  "Float_noarg = (let u = float_init 0 in \<lparr>fval = 0, act = 0\<rparr>)"

text \<open>
  \<open>Float(s)\<close> for a string \<open>s\<close>. The builtin \<open>float\<close> on strings is the parameter
  \<open>float_str\<close> (\<open>None\<close> where it raises ValueError). \<open>__new__\<close> parses the whole of
  \<open>s\<close>; \<open>__init__\<close> then parses again, without a trailing \<open>*\<close>.
\<close>

definition Float_init_str :: "(string \<Rightarrow> rat option) \<Rightarrow> rat \<Rightarrow> string \<Rightarrow> error + Float" where
  "Float_init_str float_str self val =
     (if endswith val ''*'' then
        (case float_str (but_last_n 1 val) of
           None \<Rightarrow> Inl ValueError
         | Some v \<Rightarrow> Inr (Float_init_num self (v * 60)))
      else if val \<noteq> [] then
        (case float_str val of
           None \<Rightarrow> Inl ValueError
         | Some v \<Rightarrow>
             (let val = py_round v 3; u = float_init (if val \<noteq> 0 then val else 0)
              in Inr \<lparr>fval = self, act = 0\<rparr>))
      else (let u = float_init 0 in Inr \<lparr>fval = self, act = 0\<rparr>))"

definition Float_str :: "(string \<Rightarrow> rat option) \<Rightarrow> string \<Rightarrow> error + Float" where
  "Float_str float_str s =
     (case float_str s of
        None \<Rightarrow> Inl ValueError
      | Some v \<Rightarrow> Float_init_str float_str v s)"

text \<open>
  The operators: \<open>Float(float(self) + float(other))\<close> and its siblings. \<open>other\<close> is
  given as the number \<open>float(other)\<close>.
\<close>

definition Float_add :: "Float \<Rightarrow> rat \<Rightarrow> Float" where
  "Float_add self other = Float_num (fval self + other)"

definition Float_sub :: "Float \<Rightarrow> rat \<Rightarrow> Float" where
  "Float_sub self other = Float_num (fval self - other)"

definition Float_mul :: "Float \<Rightarrow> rat \<Rightarrow> Float" where
  "Float_mul self other = Float_num (fval self * other)"

definition Float_truediv :: "Float \<Rightarrow> rat \<Rightarrow> error + Float" where
  "Float_truediv self other =
     (if other = 0 then Inl ZeroDivisionError else Inr (Float_num (fval self / other)))"

section \<open>Alpha (base.py)\<close>

text \<open>
  \<open>Alpha\<close> is the base class of \<open>Msg\<close>, \<open>Order\<close>, \<open>Calc\<close> and \<open>Condition\<close>. Its
  constructor reads the configuration file and opens the service clients; it is taken to
  return, and what it stores is read by none of the operations below.

  \<open>Alpha.type_convert(self, _from, _to)\<close> replaces every attribute \<open>v\<close> of \<open>self\<close> that is
  a \<open>_from\<close> by \<open>_to(round(v, 3))\<close>; for \<open>_from = float\<close> and \<open>_to = Float\<close> an attribute
  becomes \<open>type_convert_float v\<close>. Besides \<open>self\<close> its parameters are \<open>_from\<close> and
  \<open>_to\<close>, and it takes no \<open>**kwargs\<close>.
\<close>

definition type_convert_float :: "rat \<Rightarrow> Float" where
  "type_convert_float v = Float_num (py_round v 3)"

definition type_convert_params :: "string list" where
  "type_convert_params = [''_from'', ''_to'']"

text \<open>
  A call with keyword arguments of a function that has the parameters \<open>params\<close> and no
  \<open>**kwargs\<close>: a keyword that is none of the parameters raises TypeError, and the body
  does not run. \<open>body\<close> is what the body would return.
\<close>

definition call_keywords :: "string list \<Rightarrow> string list \<Rightarrow> 'a \<Rightarrow> error + 'a" where
  "call_keywords params keywords body =
     (if filter (\<lambda>k. k \<notin> set params) keywords = [] then Inr body else Inl TypeError)"

text \<open>
  \<open>self.type_convert(_from=float, _to=Float, by_alias=False)\<close>, the last statement of the
  constructors of \<open>Msg\<close>, \<open>Order\<close>, \<open>Calc\<close> and \<open>Condition\<close>; \<open>converted\<close> is \<open>self\<close>
  as the body of \<open>type_convert\<close> would leave it.
\<close>

definition type_convert_by_alias :: "'a \<Rightarrow> error + 'a" where
  "type_convert_by_alias converted =
     call_keywords type_convert_params [''_from'', ''_to'', ''by_alias''] converted"

section \<open>Order (order.py) and OrderBook (mocks/order_book.py)\<close>

text \<open>
  An \<open>Order\<close> with the fields the order book fills. Its \<open>id\<close> (an MD5 digest) and its two
  clock readings are left out. \<open>Order(...)\<close> is \<open>Order.__init__\<close>: the fields are stored,
  then \<open>type_convert\<close> is called as above.
\<close>

record Order =
  model_id :: string
  side :: string
  funds :: Float
  specified_funds :: Float
  executed_value :: Float
  filled_size :: Float
  settled :: bool

definition Order_type_convert :: "Order \<Rightarrow> Order" where
  "Order_type_convert self =
     self\<lparr>funds := type_convert_float (fval (funds self)),
          specified_funds := type_convert_float (fval (specified_funds self)),
          executed_value := type_convert_float (fval (executed_value self)),
          filled_size := type_convert_float (fval (filled_size self))\<rparr>"

definition Order_init :: "Order \<Rightarrow> error + Order" where
  "Order_init self = type_convert_by_alias (Order_type_convert self)"

record OrderBook =
  ob_usd :: Float
  ob_amt :: Float
  ob_asset :: string
  ob_orders :: "(int \<times> Order) list"
  ob_id :: int

definition OrderBook_sell :: "Float \<Rightarrow> int \<Rightarrow> OrderBook \<Rightarrow> error + Order" where
  "OrderBook_sell price tm ob =
     (let usd = Float_add (ob_usd ob) (fval (Float_mul (ob_amt ob) (fval price)))
      in if fval usd = 0 then Inl AssertionError
         else Order_init \<lparr>model_id = str_int (ob_id ob), side = ''sell'',
                           funds = Float_noarg, specified_funds = Float_noarg,
                           executed_value = usd, filled_size = ob_amt ob,
                           settled = True\<rparr>)"

definition OrderBook_buy :: "Float \<Rightarrow> int \<Rightarrow> OrderBook \<Rightarrow> error + Order" where
  "OrderBook_buy price tm ob =
     (case Float_truediv (ob_usd ob) (fval price) of
        Inl e \<Rightarrow> Inl e
      | Inr q \<Rightarrow>
          (let amt = Float_add (ob_amt ob) (fval q)
           in if fval amt = 0 then Inl AssertionError
              else Order_init \<lparr>model_id = str_int (ob_id ob), side = ''buy'',
                                funds = ob_usd ob, specified_funds = ob_usd ob,
                                executed_value = ob_usd ob, filled_size = amt,
                                settled = True\<rparr>))"

text \<open>
  \<open>order(mode, price, tm)\<close>: the order is built first; when that raises, nothing has been
  stored and no balance has moved.
\<close>

definition OrderBook_order :: "string \<Rightarrow> Float \<Rightarrow> int \<Rightarrow> (OrderBook, Order) action" where
  "OrderBook_order mode price tm ob =
     (case (if mode = ''sell'' then OrderBook_sell price tm ob else OrderBook_buy price tm ob) of
        Inl e \<Rightarrow> (Inl e, ob)
      | Inr order \<Rightarrow>
          (let ob1 = ob\<lparr>ob_orders := AList.update tm order (ob_orders ob)\<rparr>
           in if mode = ''buy'' then
                (case Float_truediv (ob_usd ob1) (fval price) of
                   Inl e \<Rightarrow> (Inl e, ob1)
                 | Inr q \<Rightarrow>
                     (let ob2 = ob1\<lparr>ob_amt := Float_add (ob_amt ob1) (fval q)\<rparr>
                      in if fval (ob_amt ob2) = 0 then (Inl AssertionError, ob2)
                         else (Inr order, ob2\<lparr>ob_usd := Float_noarg\<rparr>)))
              else if mode = ''sell'' then
                (let ob2 = ob1\<lparr>ob_usd := Float_add (ob_usd ob1)
                                            (fval (Float_mul (ob_amt ob1) (fval price)))\<rparr>
                 in if fval (ob_usd ob2) = 0 then (Inl AssertionError, ob2)
                    else (Inr order, ob2\<lparr>ob_amt := Float_noarg\<rparr>))
              else (Inr order, ob1)))"

text \<open>Exactly one of the two balances is nonzero.\<close>

definition one_sided :: "OrderBook \<Rightarrow> bool" where
  "one_sided ob = ((fval (ob_usd ob) = 0) \<noteq> (fval (ob_amt ob) = 0))"

section \<open>Data frames\<close>

text \<open>
  The part of pandas that \<open>coinframe.py\<close> calls. A \<open>DataFrame\<close> is its index and its
  labelled columns, each as long as the index; a cell is a number or NaN (\<open>None\<close>). A
  dict is the list of its items in insertion order: \<open>AList.update\<close> stores (in place for
  a key that is there, at the end for a new one), \<open>AList.delete\<close> removes, \<open>map_of\<close>
  looks up.
\<close>

type_synonym cell = "rat option"

type_synonym row = "(string \<times> cell) list"

record frame =
  idx :: "int list"
  cols :: "(string \<times> cell list) list"

definition labels :: "frame \<Rightarrow> string list" where
  "labels df = map fst (cols df)"

text \<open>\<open>df.rename(columns={old: new})\<close>\<close>

definition rename :: "string \<Rightarrow> string \<Rightarrow> frame \<Rightarrow> frame" where
  "rename old new df = df\<lparr>cols := map (\<lambda>(c, xs). (if c = old then new else c, xs)) (cols df)\<rparr>"

text \<open>\<open>pd.concat([a, b], axis=1)\<close> of two frames on one index\<close>

definition concat_columns :: "frame \<Rightarrow> frame \<Rightarrow> frame" where
  "concat_columns a b = a\<lparr>cols := cols a @ cols b\<rparr>"

text \<open>\<open>df.name\<close>: the column of that label, AttributeError (\<open>None\<close>) when no column has it\<close>

definition getattr :: "frame \<Rightarrow> string \<Rightarrow> cell list option" where
  "getattr df name = map_of (cols df) name"

text \<open>\<open>df[c] = xs\<close>\<close>

definition set_column :: "string \<Rightarrow> cell list \<Rightarrow> frame \<Rightarrow> frame" where
  "set_column c xs df = df\<lparr>cols := AList.update c xs (cols df)\<rparr>"

text \<open>\<open>df.drop(columns=[c], inplace=True)\<close>\<close>

definition drop_column :: "string \<Rightarrow> frame \<Rightarrow> error + frame" where
  "drop_column c df =
     (if c \<in> set (labels df) then Inr (df\<lparr>cols := AList.delete c (cols df)\<rparr>) else Inl KeyError)"

definition map_columns :: "(cell list \<Rightarrow> cell list) \<Rightarrow> frame \<Rightarrow> frame" where
  "map_columns f df = df\<lparr>cols := map (\<lambda>(c, xs). (c, f xs)) (cols df)\<rparr>"

text \<open>
  \<open>rolling(n)\<close>: at position \<open>k\<close> the window is the \<open>n\<close> cells ending there; the result is
  NaN where fewer than \<open>n\<close> cells are there or one of them is NaN.
\<close>

definition window_cells :: "nat \<Rightarrow> cell list \<Rightarrow> nat \<Rightarrow> rat list option" where
  "window_cells n xs k =
     (if n = 0 \<or> Suc k < n then None else those (take n (drop (Suc k - n) xs)))"

definition rolling :: "(rat list \<Rightarrow> rat) \<Rightarrow> nat \<Rightarrow> cell list \<Rightarrow> cell list" where
  "rolling f n xs = map (\<lambda>k. map_option f (window_cells n xs k)) [0..<length xs]"

definition mean :: "rat list \<Rightarrow> rat" where
  "mean xs = sum_list xs / of_nat (length xs)"

definition maximum :: "rat list \<Rightarrow> rat" where
  "maximum xs = fold max (tl xs) (hd xs)"

definition minimum :: "rat list \<Rightarrow> rat" where
  "minimum xs = fold min (tl xs) (hd xs)"

text \<open>\<open>cummax()\<close> and \<open>cummin()\<close>: NaN cells stay NaN and are skipped.\<close>

fun cumulative :: "(rat \<Rightarrow> rat \<Rightarrow> rat) \<Rightarrow> cell \<Rightarrow> cell list \<Rightarrow> cell list" where
  "cumulative f acc [] = []"
| "cumulative f acc (None # xs) = None # cumulative f acc xs"
| "cumulative f None (Some x # xs) = Some x # cumulative f (Some x) xs"
| "cumulative f (Some a) (Some x # xs) = Some (f a x) # cumulative f (Some (f a x)) xs"

text \<open>\<open>shift(1)\<close>\<close>

definition shift1 :: "cell list \<Rightarrow> cell list" where
  "shift1 xs = take (length xs) (None # xs)"

definition times_cells :: "cell list \<Rightarrow> rat \<Rightarrow> cell list" where
  "times_cells xs m = map (map_option (\<lambda>x. x * m)) xs"

definition plus_cells :: "cell list \<Rightarrow> cell list \<Rightarrow> cell list" where
  "plus_cells xs ys =
     map (\<lambda>(a, b). case a of None \<Rightarrow> None | Some x \<Rightarrow> map_option (\<lambda>y. x + y) b) (zip xs ys)"

text \<open>\<open>dropna()\<close>: the rows without a NaN\<close>

definition keep_rows :: "bool list \<Rightarrow> 'a list \<Rightarrow> 'a list" where
  "keep_rows m xs = map snd (filter fst (zip m xs))"

definition row_complete :: "frame \<Rightarrow> nat \<Rightarrow> bool" where
  "row_complete df k = list_all (\<lambda>(c, xs). xs ! k \<noteq> None) (cols df)"

definition dropna :: "frame \<Rightarrow> frame" where
  "dropna df =
     (let m = map (row_complete df) [0..<length (idx df)]
      in \<lparr>idx = keep_rows m (idx df), cols = map (\<lambda>(c, xs). (c, keep_rows m xs)) (cols df)\<rparr>)"

text \<open>The row at position \<open>k\<close> as a dict of its columns\<close>

definition row_at :: "frame \<Rightarrow> nat \<Rightarrow> row" where
  "row_at df k = fold (\<lambda>(c, xs). AList.update c (xs ! k)) (cols df) []"

text \<open>\<open>df.tail(1).to_dict(orient='records')[0]\<close>\<close>

definition last_record :: "frame \<Rightarrow> error + row" where
  "last_record df =
     (if idx df = [] then Inl IndexError else Inr (row_at df (length (idx df) - 1)))"

text \<open>\<open>df.to_dict(orient='index')\<close>: needs a unique index\<close>

definition to_dict_index :: "frame \<Rightarrow> error + (int \<times> row) list" where
  "to_dict_index df =
     (if distinct (idx df)
      then Inr (map (\<lambda>k. (idx df ! k, row_at df k)) [0..<length (idx df)])
      else Inl ValueError)"

text \<open>
  \<open>pd.DataFrame().from_dict(data=d, orient='index')\<close> for rows of one shape: one row for
  each key, in the order of the dict, and the columns of the rows.
\<close>

definition from_dict_index :: "(int \<times> row) list \<Rightarrow> frame" where
  "from_dict_index d =
     \<lparr>idx = map fst d,
      cols = map (\<lambda>c. (c, map (\<lambda>(k, r). case map_of r c of None \<Rightarrow> None | Some v \<Rightarrow> v) d))
                 (remdups (concat (map (\<lambda>(k, r). map fst r) d)))\<rparr>"

section \<open>CoinFrame (coinframe.py)\<close>

record CoinFrame =
  cf_asset_id :: "string option"
  cf_i :: int
  cf_e :: int
  cf_calcs :: row
  cf_obj :: frame
  cf_src :: "(int \<times> row) list"
  cf_is_backtest :: bool
  cf_src_backtest :: "(int \<times> row) list"
  cf_n :: int

text \<open>
  \<open>src(r, backtest)\<close>: the live dict is filled from the frame when it is empty (or \<open>r\<close>
  is set), whichever dict is asked for. The parameter \<open>i\<close>, which no caller passes, is
  left out.
\<close>

definition src :: "bool \<Rightarrow> bool \<Rightarrow> (CoinFrame, (int \<times> row) list) action" where
  "src r backtest cf =
     (if cf_src cf = [] \<or> r then
        (case to_dict_index (cf_obj cf) of
           Inl e \<Rightarrow> (Inl e, cf)
         | Inr d \<Rightarrow>
             (let cf' = cf\<lparr>cf_src := d\<rparr>
              in (Inr (if \<not> backtest then cf_src cf' else cf_src_backtest cf'), cf')))
      else (Inr (if \<not> backtest then cf_src cf else cf_src_backtest cf), cf))"

text \<open>\<open>min(d)\<close> and \<open>max(d)\<close> of a dict: of its keys, ValueError when it is empty\<close>

definition py_min :: "(int \<times> 'v) list \<Rightarrow> error + int" where
  "py_min d = (if d = [] then Inl ValueError else Inr (fold min (map fst (tl d)) (fst (hd d))))"

definition py_max :: "(int \<times> 'v) list \<Rightarrow> error + int" where
  "py_max d = (if d = [] then Inl ValueError else Inr (fold max (map fst (tl d)) (fst (hd d))))"

definition lift_err :: "error + 'a \<Rightarrow> ('s, 'a) action" where
  "lift_err r s = (r, s)"

definition first :: "bool \<Rightarrow> (CoinFrame, int) action" where
  "first backtest = py_bind (src False backtest) (\<lambda>d. lift_err (py_min d))"

definition last_key :: "bool \<Rightarrow> (CoinFrame, int) action" where
  "last_key backtest = py_bind (src False backtest) (\<lambda>d. lift_err (py_max d))"

text \<open>\<open>self._src.pop(k)\<close>, \<open>self._src_backtest.pop(k)\<close> and \<open>self._src[k] = v\<close>\<close>

definition pop_src :: "int \<Rightarrow> (CoinFrame, row) action" where
  "pop_src k cf =
     (case map_of (cf_src cf) k of
        None \<Rightarrow> (Inl KeyError, cf)
      | Some v \<Rightarrow> (Inr v, cf\<lparr>cf_src := AList.delete k (cf_src cf)\<rparr>))"

definition pop_src_backtest :: "int \<Rightarrow> (CoinFrame, row) action" where
  "pop_src_backtest k cf =
     (case map_of (cf_src_backtest cf) k of
        None \<Rightarrow> (Inl KeyError, cf)
      | Some v \<Rightarrow> (Inr v, cf\<lparr>cf_src_backtest := AList.delete k (cf_src_backtest cf)\<rparr>))"

definition set_src :: "int \<Rightarrow> row \<Rightarrow> (CoinFrame, unit) action" where
  "set_src k v cf = (Inr (), cf\<lparr>cf_src := AList.update k v (cf_src cf)\<rparr>)"

text \<open>\<open>from_dict(src)\<close>: \<open>src or self._src\<close> becomes the frame\<close>

definition from_dict :: "(int \<times> row) list option \<Rightarrow> (CoinFrame, unit) action" where
  "from_dict d cf =
     (let s = (case d of None \<Rightarrow> cf_src cf | Some d' \<Rightarrow> if d' = [] then cf_src cf else d')
      in (Inr (), cf\<lparr>cf_obj := from_dict_index s\<rparr>))"

definition update_backtest :: "(CoinFrame, unit) action" where
  "update_backtest =
     except_ValueError
       (py_bind (first True) (\<lambda>tmstmp.
        py_bind (first False) (\<lambda>oldest.
        py_bind (pop_src oldest) (\<lambda>dropped.
        py_bind (first True) (\<lambda>nxt.
        py_bind (pop_src_backtest nxt) (\<lambda>price.
        py_bind (set_src tmstmp price) (\<lambda>u.
        from_dict None)))))))
       BackTestCompletedError"

text \<open>
  \<open>Msg\<close> (msg.py), the unpacked ticker message, with the two fields \<open>feed()\<close> reads.
  The message that \<open>ticker_latest\<close> read from the ticker files is a \<open>ticker\<close>: its
  price and the epoch seconds of its \<open>time\<close> (\<open>iso_to_epoch\<close>). \<open>Msg(**ticker)\<close> is
  \<open>Msg.__init__\<close>: the fields are stored, then \<open>type_convert\<close> is called as in every
  constructor of an \<open>Alpha\<close>.
\<close>

record ticker =
  tk_price :: rat
  tk_time :: rat

record Msg =
  msg_price :: Float
  msg_time :: rat

definition Msg_type_convert :: "Msg \<Rightarrow> Msg" where
  "Msg_type_convert self = self\<lparr>msg_price := type_convert_float (fval (msg_price self))\<rparr>"

definition Msg_init :: "ticker \<Rightarrow> error + Msg" where
  "Msg_init t =
     type_convert_by_alias
       (Msg_type_convert \<lparr>msg_price = Float_num (tk_price t), msg_time = tk_time t\<rparr>)"

text \<open>\<open>feed()\<close>: \<open>int(iso_to_epoch(self.time) / 60), {'price': self.price}\<close>\<close>

definition Msg_feed :: "Msg \<Rightarrow> int \<times> row" where
  "Msg_feed self = (py_int (msg_time self / 60), [(''price'', Some (fval (msg_price self)))])"

definition truthy_str :: "string option \<Rightarrow> bool" where
  "truthy_str a = (case a of None \<Rightarrow> False | Some s \<Rightarrow> s \<noteq> [])"

text \<open>
  The last three statements of \<open>update\<close>, with the minute and the row of the message:
  \<open>if (tmstmp - self.last()) > 0: self._src.pop(self.last())\<close>,
  \<open>self._src[tmstmp] = price\<close>, \<open>return self.from_dict()\<close>.
\<close>

definition update_window :: "int \<Rightarrow> row \<Rightarrow> (CoinFrame, unit) action" where
  "update_window tmstmp price =
     py_bind (last_key False) (\<lambda>newest.
     py_bind (if tmstmp - newest > 0
              then py_bind (last_key False) (\<lambda>k. py_bind (pop_src k) (\<lambda>dropped. py_return ()))
              else py_return ()) (\<lambda>u.
     py_bind (set_src tmstmp price) (\<lambda>u'.
     from_dict None)))"

text \<open>
  \<open>update(asset)\<close>. \<open>latest\<close> is what \<open>ticker_latest(asset=asset, remove=False)\<close> returns
  or raises.
\<close>

definition update :: "string option \<Rightarrow> error + ticker \<Rightarrow> (CoinFrame, unit) action" where
  "update asset latest cf =
     (let asset = (if truthy_str asset then asset else cf_asset_id cf)
      in if \<not> truthy_str asset then (Inl ValueError, cf)
         else if cf_is_backtest cf then update_backtest cf
         else py_bind (lift_err (bind_err latest Msg_init))
                (\<lambda>msg. case Msg_feed msg of (tmstmp, price) \<Rightarrow> update_window tmstmp price) cf)"

text \<open>\<open>cache(df)\<close>: the last row goes into \<open>calcs\<close>; the rows without NaN are returned.\<close>

definition cache :: "frame \<Rightarrow> (CoinFrame, frame) action" where
  "cache df cf =
     (case last_record df of
        Inl e \<Rightarrow> (Inl e, cf)
      | Inr r \<Rightarrow> (Inr (dropna df),
                   cf\<lparr>cf_calcs := fold (\<lambda>(k, v). AList.update k v) r (cf_calcs cf)\<rparr>))"

text \<open>
  \<open>ema(n, suffix, drop_cols)\<close>. \<open>on_copy\<close> only chooses whether the frame is copied
  first, and nothing here writes to the frame of the object.
\<close>

definition ema :: "int option \<Rightarrow> bool \<Rightarrow> bool \<Rightarrow> (CoinFrame, frame) action" where
  "ema n suffix drop_cols cf =
     (let df = cf_obj cf;
          n = (case n of None \<Rightarrow> cf_i cf | Some k \<Rightarrow> if k = 0 then cf_i cf else k);
          sfx = (if suffix then ''_'' @ str_int n else [])
      in if n + 1 = 0 then (Inl ZeroDivisionError, cf)
         else
          (let multiplier = 2 / of_int (n + 1);
               sfx' = strip (CHR ''_'') sfx;
               sma_col = ''sma (n='' @ sfx' @ '')'';
               ema1_col = ''ema (i=1, n='' @ sfx' @ '')''
           in if n < 0 then (Inl ValueError, cf)
              else
               (let df_rolling_n = rename ''price'' sma_col (map_columns (rolling mean (nat n)) df);
                    df = concat_columns df df_rolling_n
                in case getattr df ''price'' of
                     None \<Rightarrow> (Inl AttributeError, cf)
                   | Some price \<Rightarrow>
                      (case getattr df sma_col of
                         None \<Rightarrow> (Inl KeyError, cf)
                       | Some sma \<Rightarrow>
                          (let df = set_column ema1_col
                                      (plus_cells (times_cells price multiplier)
                                                  (times_cells (shift1 sma) (1 - multiplier))) df
                           in if drop_cols then
                                (case bind_err (drop_column sma_col df) (drop_column ''price'') of
                                   Inl e \<Rightarrow> (Inl e, cf)
                                 | Inr df' \<Rightarrow> cache df' cf)
                              else cache df cf)))))"

text \<open>
  The value \<open>ema\<close> computes at row \<open>k\<close> of a window without NaN: the price of the row
  times the multiplier, plus the mean of the \<open>n\<close> prices before the row times the rest.
\<close>

definition ema_value :: "nat \<Rightarrow> rat list \<Rightarrow> nat \<Rightarrow> rat" where
  "ema_value n ps k =
     ps ! k * (2 / (of_nat n + 1)) + mean (take n (drop (k - n) ps)) * (1 - 2 / (of_nat n + 1))"

text \<open>\<open>max(n)\<close> and \<open>min(n)\<close>; \<open>int(None)\<close> raises TypeError, a negative window ValueError.\<close>

definition CoinFrame_max :: "int option \<Rightarrow> (CoinFrame, frame) action" where
  "CoinFrame_max n cf =
     (case n of
        None \<Rightarrow> (Inl TypeError, cf)
      | Some n \<Rightarrow>
         (let suffix = ''max (n='' @ (if n = 0 then ''hist'' else str_int n) @ '')''
          in if n < 0 then (Inl ValueError, cf)
             else
              (let df = (if n = 0 then map_columns (cumulative max None) (cf_obj cf)
                         else map_columns (rolling maximum (nat n)) (cf_obj cf))
               in case labels (cf_obj cf) of
                    [] \<Rightarrow> (Inl IndexError, cf)
                  | c0 # cs \<Rightarrow> cache (rename c0 suffix df) cf)))"

definition CoinFrame_min :: "int option \<Rightarrow> (CoinFrame, frame) action" where
  "CoinFrame_min n cf =
     (case n of
        None \<Rightarrow> (Inl TypeError, cf)
      | Some n \<Rightarrow>
         (let suffix = ''min (n='' @ (if n = 0 then ''hist'' else str_int n) @ '')'';
              df = (if n > 0 then map_columns (rolling minimum (nat n)) (cf_obj cf)
                    else map_columns (cumulative min None) (cf_obj cf))
          in case labels (cf_obj cf) of
               [] \<Rightarrow> (Inl IndexError, cf)
             | c0 # cs \<Rightarrow> cache (rename c0 suffix df) cf))"

text \<open>
  \<open>spread(n)\<close>. The suffix compares \<open>n > 1\<close>, a TypeError for \<open>None\<close>. The two columns
  are read as the attributes \<open>max_hist\<close> and \<open>min_hist\<close>. Their difference is a
  \<open>Series\<close>; \<open>cache\<close> calls \<open>to_dict(orient='records')\<close> on its tail, and \<open>Series.to_dict\<close>
  has no parameter \<open>orient\<close>: a TypeError.
\<close>

definition minus_cells :: "cell list \<Rightarrow> cell list \<Rightarrow> cell list" where
  "minus_cells xs ys =
     map (\<lambda>(a, b). case a of None \<Rightarrow> None | Some x \<Rightarrow> map_option (\<lambda>y. x - y) b) (zip xs ys)"

definition cache_series :: "cell list \<Rightarrow> (CoinFrame, frame) action" where
  "cache_series xs = py_raise TypeError"

definition spread :: "int option \<Rightarrow> (CoinFrame, frame) action" where
  "spread n =
     (case n of
        None \<Rightarrow> py_raise TypeError
      | Some k \<Rightarrow>
          py_bind (CoinFrame_max n) (\<lambda>df_max.
          py_bind (CoinFrame_min n) (\<lambda>df_min.
            (case getattr df_max ''max_hist'' of
               None \<Rightarrow> py_raise AttributeError
             | Some mx \<Rightarrow>
                (case getattr df_min ''min_hist'' of
                   None \<Rightarrow> py_raise AttributeError
                 | Some mn \<Rightarrow> cache_series (minus_cells mx mn))))))"

text \<open>What the claim takes \<open>spread(n)\<close> to be: the column of \<open>max(n)\<close> less that of
  \<open>min(n)\<close>, row by row.\<close>

definition spread_spec :: "int option \<Rightarrow> (CoinFrame, frame) action" where
  "spread_spec n =
     py_bind (CoinFrame_max n) (\<lambda>df_max.
     py_bind (CoinFrame_min n) (\<lambda>df_min.
       (case (cols df_max, cols df_min) of
          ((c, mx) # r, (c', mn) # r') \<Rightarrow>
             py_return \<lparr>idx = idx df_max, cols = [(''spread'', minus_cells mx mn)]\<rparr>
        | _ \<Rightarrow> py_raise IndexError)))"

section \<open>Calc and Condition (condition.py)\<close>

text \<open>
  Both classes derive from \<open>Alpha\<close>, and each constructor ends with
  \<open>self.type_convert(_from=float, _to=Float, by_alias=False)\<close>. The attribute \<open>is_ma\<close>
  of a \<open>Calc\<close> (membership of the name in \<open>dir(CoinFrame())\<close>) is read by none of the
  operations below and is left out.

  \<open>bound\<close> is the int \<open>-1\<close> or a \<open>Float\<close>; \<open>type_convert\<close> leaves an int as it is.
\<close>

datatype number = PInt int | PFloat Float

definition float_of :: "number \<Rightarrow> rat" where
  "float_of x = (case x of PInt k \<Rightarrow> of_int k | PFloat f \<Rightarrow> fval f)"

definition type_convert_number :: "number \<Rightarrow> number" where
  "type_convert_number x = (case x of PInt k \<Rightarrow> PInt k | PFloat f \<Rightarrow> PFloat (type_convert_float (fval f)))"

record Calc =
  calc_raw :: "string list"
  calc_nm :: string
  calc_bound :: number
  calc_val :: Float

text \<open>
  The statements of \<open>Calc.__init__\<close> that assign \<open>self.nm\<close> and \<open>self.bound\<close>: the two
  attributes as they are when \<open>type_convert\<close> is called.
\<close>

definition Calc_nm_bound :: "(string \<Rightarrow> rat option) \<Rightarrow> string list \<Rightarrow> error + string \<times> number" where
  "Calc_nm_bound float_str raw =
     (case (if length raw = 2 then
              (case Float_str float_str (raw ! 1) of
                 Inl e \<Rightarrow> Inl e
               | Inr b \<Rightarrow> Inr (raw ! 0, PFloat b))
            else if raw = [] then Inl IndexError
            else Inr (raw ! 0, PInt (- 1))) of
        Inl e \<Rightarrow> Inl e
      | Inr (nm, bound) \<Rightarrow>
          Inr (if endswith nm ''*'' then
                 (but_last_n 1 nm, PFloat (Float_mul (Float_num (float_of bound)) 60))
               else if endswith nm ''**'' then
                 (but_last_n 2 nm, PFloat (Float_mul (Float_num (float_of bound)) 60))
               else (nm, bound)))"

text \<open>\<open>Calc(raw=raw)\<close>: the object the constructor returns, or what it raises\<close>

definition Calc_init :: "(string \<Rightarrow> rat option) \<Rightarrow> string list \<Rightarrow> error + Calc" where
  "Calc_init float_str raw =
     bind_err (Calc_nm_bound float_str raw) (\<lambda>(nm, bound).
       type_convert_by_alias
         \<lparr>calc_raw = raw, calc_nm = nm, calc_bound = type_convert_number bound,
          calc_val = type_convert_float 0\<rparr>)"

text \<open>
  The methods of a \<open>Calc\<close> and of a \<open>Condition\<close>, as functions of the attributes of the
  object they are called on.
\<close>

definition Calc_name :: "Calc \<Rightarrow> string" where
  "Calc_name c =
     (case calc_bound c of
        PFloat b \<Rightarrow> calc_nm c @ '' (n='' @ str_int (py_int (fval b)) @ '')''
      | PInt k \<Rightarrow> calc_nm c)"

definition Calc_bool :: "Calc \<Rightarrow> bool" where
  "Calc_bool c = (fval (calc_val c) \<noteq> 0)"

text \<open>\<open>Calc.__truediv__\<close>: both operands are truthy where the division is made.\<close>

definition Calc_truediv :: "Calc \<Rightarrow> Calc \<Rightarrow> Float" where
  "Calc_truediv self other =
     (if Calc_bool self \<and> Calc_bool other
      then Float_num (fval (calc_val self) / fval (Float_num (fval (calc_val other))))
      else Float_noarg)"

record Condition =
  cond_raw :: "string list list"
  cond_t_r :: string
  cond_t :: Float
  cond_gt :: bool
  cond_eq :: bool
  cond_calcs :: "(int \<times> Calc) list"
  cond_mode :: string

text \<open>\<open>xs[i]\<close> for \<open>i \<ge> 0\<close>, and \<open>xs[-1]\<close>\<close>

definition item :: "'a list \<Rightarrow> nat \<Rightarrow> error + 'a" where
  "item xs i = (if i < length xs then Inr (xs ! i) else Inl IndexError)"

definition last_item :: "'a list \<Rightarrow> error + 'a" where
  "last_item xs = (if xs = [] then Inl IndexError else Inr (last xs))"

definition float_of_str :: "(string \<Rightarrow> rat option) \<Rightarrow> string \<Rightarrow> error + rat" where
  "float_of_str float_str s = (case float_str s of None \<Rightarrow> Inl ValueError | Some v \<Rightarrow> Inr v)"

text \<open>\<open>Condition(raw=raw, mode=mode)\<close>: the object the constructor returns, or what it raises\<close>

definition Condition_init ::
  "(string \<Rightarrow> rat option) \<Rightarrow> string list list \<Rightarrow> string \<Rightarrow> error + Condition" where
  "Condition_init float_str raw mode =
     bind_err (item raw 0) (\<lambda>r0.
     bind_err (Calc_init float_str r0) (\<lambda>c1.
     bind_err (item raw 1) (\<lambda>r1.
     bind_err (Calc_init float_str r1) (\<lambda>c2.
     bind_err (last_item raw) (\<lambda>rl.
     bind_err (item rl 0) (\<lambda>t_r.
       (let eq = endswith t_r ''**'';
            gt = (endswith t_r ''*'' \<and> \<not> endswith t_r ''**'')
        in bind_err (if gt then float_of_str float_str (but_last_n 1 t_r)
                     else if eq then float_of_str float_str (but_last_n 2 t_r)
                     else float_of_str float_str t_r) (\<lambda>t.
             type_convert_by_alias
               \<lparr>cond_raw = raw, cond_t_r = t_r, cond_t = type_convert_float t,
                cond_gt = gt, cond_eq = eq, cond_calcs = [(1, c1), (2, c2)],
                cond_mode = mode\<rparr>))))))))"

text \<open>The test both \<open>actual\<close> and \<open>__bool__\<close> start with.\<close>

definition price_last_unset :: "Condition \<Rightarrow> bool" where
  "price_last_unset cd =
     list_ex (\<lambda>c. calc_nm c = ''price-last'' \<and> \<not> Calc_bool c) (map snd (cond_calcs cd))"

definition getitem :: "('k \<times> 'v) list \<Rightarrow> 'k \<Rightarrow> error + 'v" where
  "getitem d k = (case map_of d k of None \<Rightarrow> Inl KeyError | Some v \<Rightarrow> Inr v)"

definition Condition_actual :: "Condition \<Rightarrow> error + Float" where
  "Condition_actual cd =
     (if price_last_unset cd then Inr Float_noarg
      else bind_err (getitem (cond_calcs cd) 2) (\<lambda>c2.
           bind_err (getitem (cond_calcs cd) 1) (\<lambda>c1.
             Inr (Calc_truediv c2 c1))))"

definition Condition_bool :: "Condition \<Rightarrow> error + bool" where
  "Condition_bool cd =
     (if price_last_unset cd then Inr True
      else if cond_gt cd then
        bind_err (Condition_actual cd) (\<lambda>a. Inr (fval (cond_t cd) < fval a))
      else if cond_eq cd then
        bind_err (Condition_actual cd) (\<lambda>a. Inr (fval a = fval (cond_t cd)))
      else bind_err (Condition_actual cd) (\<lambda>a. Inr (fval a < fval (cond_t cd))))"

text \<open>
  \<open>Condition.apply(calcs)\<close>: each Calc takes the value filed under its name; the first
  name that is missing raises, with the Calcs before it already updated. The values are
  finite numbers here.
\<close>

fun apply_calcs :: "(string \<times> rat) list \<Rightarrow> (int \<times> Calc) list \<Rightarrow> (error + unit) \<times> (int \<times> Calc) list" where
  "apply_calcs calcs [] = (Inr (), [])"
| "apply_calcs calcs ((i, c) # rest) =
     (case map_of calcs (Calc_name c) of
        None \<Rightarrow> (Inl ConditionNotFoundError, (i, c) # rest)
      | Some v \<Rightarrow>
          (case apply_calcs calcs rest of
             (r, rest') \<Rightarrow> (r, (i, c\<lparr>calc_val := Float_num v\<rparr>) # rest')))"

definition Condition_apply :: "(string \<times> rat) list \<Rightarrow> (Condition, unit) action" where
  "Condition_apply calcs cd =
     (case apply_calcs calcs (cond_calcs cd) of
        (r, cs) \<Rightarrow> (r, cd\<lparr>cond_calcs := cs\<rparr>))"

text \<open>
  A reader of plain decimal literals (an optional sign, digits, an optional point and
  digits), used where a concrete \<open>float_str\<close> is needed; on these strings the builtin
  \<open>float\<close> reads the same number.
\<close>

definition digit_of :: "char \<Rightarrow> nat option" where
  "digit_of c = map_of [(CHR ''0'', 0), (CHR ''1'', 1), (CHR ''2'', 2), (CHR ''3'', 3),
     (CHR ''4'', 4), (CHR ''5'', 5), (CHR ''6'', 6), (CHR ''7'', 7), (CHR ''8'', 8),
     (CHR ''9'', 9)] c"

fun digits_value :: "nat \<Rightarrow> string \<Rightarrow> nat option" where
  "digits_value acc [] = Some acc"
| "digits_value acc (c # cs) =
     (case digit_of c of None \<Rightarrow> None | Some d \<Rightarrow> digits_value (10 * acc + d) cs)"

definition unsigned_decimal :: "string \<Rightarrow> rat option" where
  "unsigned_decimal s =
     (let ip = takeWhile (\<lambda>c. c \<noteq> CHR ''.'') s;
          fp = drop (Suc (length ip)) s
      in if ip = [] \<and> fp = [] then None
         else (case (digits_value 0 ip, digits_value 0 fp) of
                 (Some a, Some b) \<Rightarrow> Some (of_nat a + of_nat b / 10 ^ length fp)
               | _ \<Rightarrow> None))"

definition decimal_float :: "string \<Rightarrow> rat option" where
  "decimal_float s =
     (case s of
        [] \<Rightarrow> None
      | c # cs \<Rightarrow>
          if c = CHR ''-'' then map_option uminus (unsigned_decimal cs)
          else if c = CHR ''+'' then unsigned_decimal cs
          else unsigned_decimal s)"

section \<open>Properties of Float\<close>

lemma Float_num_eq: "Float_num x = \<lparr>fval = x, act = 0\<rparr>"
  by (simp add: Float_num_def Float_init_num_def Let_def)

lemma Float_noarg_eq: "Float_noarg = \<lparr>fval = 0, act = 0\<rparr>"
  by (simp add: Float_noarg_def Let_def)


text \<open>
  C10. The claim: \<open>Float(x)\<close> is \<open>round(float(x), 3)\<close> for a truthy \<open>x\<close>, and every Float
  operator rounds its result again. The code keeps the number \<open>float.__new__\<close> produced:
  \<open>Float(1.23456)\<close> is \<open>1.23456\<close>, not \<open>1.235\<close>, and
  \<open>Float(0.0004) + Float(0.0004)\<close> is \<open>0.0008\<close>, not \<open>0.001\<close>.
\<close>

theorem Float_keeps_unrounded_value:
  "fval (Float_num (123456 / 100000)) = 123456 / 100000
   \<and> py_round (123456 / 100000) 3 = 1235 / 1000
   \<and> fval (Float_num (123456 / 100000)) \<noteq> py_round (123456 / 100000) 3
   \<and> fval (Float_add (Float_num (4 / 10000)) (4 / 10000)) = 8 / 10000
   \<and> py_round (8 / 10000) 3 = 1 / 1000"
  by code_simp

section \<open>Properties of the constructors\<close>

text \<open>
  \<open>by_alias\<close> is no parameter of \<open>type_convert\<close>: the call that ends the constructors of
  \<open>Msg\<close>, \<open>Order\<close>, \<open>Calc\<close> and \<open>Condition\<close> raises TypeError, whatever the attributes
  are.
\<close>

lemma type_convert_by_alias_raises: "type_convert_by_alias converted = Inl TypeError"
  by (simp add: type_convert_by_alias_def call_keywords_def type_convert_params_def)

lemma Order_init_raises: "Order_init self = Inl TypeError"
  by (simp add: Order_init_def type_convert_by_alias_raises)

lemma Msg_init_raises: "Msg_init t = Inl TypeError"
  by (simp add: Msg_init_def type_convert_by_alias_raises)

section \<open>Properties of the order book\<close>

lemma OrderBook_order_never_returns: "\<exists>e. OrderBook_order mode price tm ob = (Inl e, ob)"
  by (auto simp: OrderBook_order_def OrderBook_sell_def OrderBook_buy_def Order_init_raises Let_def
           split: sum.splits)

text \<open>
  C9. The claim: a buy moves the whole currency balance into the asset and a sell does the
  reverse, so that exactly one balance is nonzero after every successful \<open>order\<close>.
  \<open>order\<close> builds the \<open>Order\<close> first, and \<open>Order(...)\<close> raises TypeError (its
  constructor passes the keyword \<open>by_alias\<close> to \<open>type_convert\<close>). On the book with
  \<open>usd = 1000\<close> and \<open>amt = 0\<close>, \<open>order('buy', 100, 1)\<close> raises TypeError and the book is
  as before, where the claim has \<open>usd = 0\<close> and \<open>amt = 10\<close>; on the book with \<open>usd = 0\<close>
  and \<open>amt = 10\<close>, \<open>order('sell', 110, 2)\<close> raises TypeError and the book is as before,
  where the claim has \<open>usd = 1100\<close> and \<open>amt = 0\<close>. No call of \<open>order\<close> returns
  (\<open>OrderBook_order_never_returns\<close>).
\<close>

theorem order_raises_TypeError:
  "OrderBook_order ''buy'' (Float_num 100) 1
     \<lparr>ob_usd = Float_num 1000, ob_amt = Float_noarg, ob_asset = [], ob_orders = [], ob_id = 0\<rparr>
   = (Inl TypeError,
      \<lparr>ob_usd = Float_num 1000, ob_amt = Float_noarg, ob_asset = [], ob_orders = [], ob_id = 0\<rparr>)
   \<and> one_sided \<lparr>ob_usd = Float_num 1000, ob_amt = Float_noarg, ob_asset = [], ob_orders = [], ob_id = 0\<rparr>
   \<and> OrderBook_order ''sell'' (Float_num 110) 2
     \<lparr>ob_usd = Float_noarg, ob_amt = Float_num 10, ob_asset = [], ob_orders = [], ob_id = 0\<rparr>
   = (Inl TypeError,
      \<lparr>ob_usd = Float_noarg, ob_amt = Float_num 10, ob_asset = [], ob_orders = [], ob_id = 0\<rparr>)
   \<and> one_sided \<lparr>ob_usd = Float_noarg, ob_amt = Float_num 10, ob_asset = [], ob_orders = [], ob_id = 0\<rparr>"
  by code_simp

section \<open>Properties of Calc and Condition\<close>

lemma endswith_iff: "endswith s t \<longleftrightarrow> (\<exists>xs. s = xs @ t)"
proof
  assume "endswith s t"
  then have "s = take (length s - length t) s @ t"
    by (metis append_take_drop_id endswith_def)
  then show "\<exists>xs. s = xs @ t" ..
next
  assume "\<exists>xs. s = xs @ t"
  then show "endswith s t" by (auto simp: endswith_def)
qed

lemma endswith_two_stars: "endswith s ''**'' \<Longrightarrow> endswith s ''*''"
proof -
  assume "endswith s ''**''"
  then obtain xs where "s = xs @ ''**''" by (auto simp: endswith_iff)
  then have "s = (xs @ ''*'') @ ''*''" by simp
  then show ?thesis unfolding endswith_iff by blast
qed

lemma but_last_n_append: "but_last_n (length t) (xs @ t) = xs"
  by (simp add: but_last_n_def)

lemma Calc_nm_bound_two_stars:
  assumes "Calc_nm_bound float_str raw = Inr (nm, bound)" and "endswith (hd raw) ''**''"
  shows "nm = but_last_n 1 (hd raw) \<and> endswith nm ''*''"
proof -
  from assms(2) obtain xs where xs: "hd raw = xs @ ''**''" by (auto simp: endswith_iff)
  have e1: "endswith (hd raw) ''*''" using assms(2) by (rule endswith_two_stars)
  have raw: "raw \<noteq> []" using assms(1) by (auto simp: Calc_nm_bound_def split: if_splits sum.splits)
  then have h: "raw ! 0 = hd raw" by (simp add: hd_conv_nth)
  have nm: "nm = but_last_n 1 (hd raw)"
    using assms(1) e1 raw h
    by (auto simp: Calc_nm_bound_def split: if_splits sum.splits)
  have "but_last_n 1 (hd raw) = xs @ ''*''"
    using but_last_n_append [of "''*''" "xs @ ''*''"] xs by simp
  then show ?thesis using nm by (auto simp: endswith_iff)
qed

lemma Calc_init_never_returns: "\<exists>e. Calc_init float_str raw = Inl e"
  by (cases "Calc_nm_bound float_str raw")
     (auto simp: Calc_init_def bind_err_def type_convert_by_alias_raises split: prod.splits)

text \<open>
  C5. The claim: a Calc parsed from a name with a trailing \<open>*\<close> or \<open>**\<close> has the name
  without the markers and the bound times 60. No Calc is parsed: the constructor ends with
  \<open>type_convert(..., by_alias=False)\<close> and raises TypeError (\<open>Calc_init_never_returns\<close>).
  Before that, a name ending in \<open>**\<close> has lost one marker only, since such a name also ends
  in \<open>*\<close> and that test comes first (\<open>Calc_nm_bound_two_stars\<close>):
  \<open>Calc(raw=['max**', '6'])\<close> raises TypeError with \<open>nm = 'max*'\<close> and \<open>bound = 360\<close>
  assigned, where the claim has a Calc of name \<open>max\<close> and bound 360;
  \<open>Calc(raw=['max*', '6'])\<close> raises TypeError with \<open>nm = 'max'\<close> and \<open>bound = 360\<close>
  assigned.
\<close>

theorem Calc_raises_and_keeps_one_marker:
  "Calc_init decimal_float [''max**'', ''6''] = Inl TypeError
   \<and> Calc_nm_bound decimal_float [''max**'', ''6''] = Inr (''max*'', PFloat \<lparr>fval = 360, act = 0\<rparr>)
   \<and> Calc_init decimal_float [''max*'', ''6''] = Inl TypeError
   \<and> Calc_nm_bound decimal_float [''max*'', ''6''] = Inr (''max'', PFloat \<lparr>fval = 360, act = 0\<rparr>)"
  by code_simp

lemma Condition_init_never_returns: "\<exists>e. Condition_init float_str raw mode = Inl e"
proof (cases "item raw 0")
  case (Inl e)
  then show ?thesis by (simp add: Condition_init_def bind_err_def)
next
  case (Inr r0)
  obtain e where "Calc_init float_str r0 = Inl e" using Calc_init_never_returns by blast
  then show ?thesis using Inr by (simp add: Condition_init_def bind_err_def)
qed

lemma Condition_bool_calcs:
  assumes "\<not> price_last_unset cd" and "cond_calcs cd = [(1, c1), (2, c2)]"
  shows "Condition_bool cd =
           Inr (if cond_gt cd then fval (cond_t cd) < fval (Calc_truediv c2 c1)
                else if cond_eq cd then fval (Calc_truediv c2 c1) = fval (cond_t cd)
                else fval (Calc_truediv c2 c1) < fval (cond_t cd))"
  using assms
  by (simp add: Condition_bool_def Condition_actual_def bind_err_def getitem_def)

text \<open>
  C6. The claim: a Condition parsed from a raw list compares by the markers of its
  threshold token. No Condition is parsed: the constructor builds its two Calcs first, and
  \<open>Calc(raw=self.raw[0])\<close> raises TypeError (the keyword \<open>by_alias\<close>, as in C5); the
  statements that read the markers and the threshold are not reached, and the constructor
  ends with the same call (\<open>Condition_init_never_returns\<close>). With the threshold tokens
  \<open>0.98**\<close>, \<open>0.98*\<close> and \<open>0.98\<close>, \<open>Condition(raw=[['price'], ['max', '6'], [token]],
  mode='buy')\<close> raises TypeError, where the claim has a Condition that compares with
  \<open>==\<close>, \<open>>\<close> and \<open><\<close>. (\<open>__bool__\<close> itself goes by the attributes \<open>gt\<close> and \<open>eq\<close>:
  \<open>Condition_bool_calcs\<close>.)
\<close>

theorem Condition_init_raises_TypeError:
  "Condition_init decimal_float [[''price''], [''max'', ''6''], [''0.98**'']] ''buy'' = Inl TypeError
   \<and> Condition_init decimal_float [[''price''], [''max'', ''6''], [''0.98*'']] ''buy'' = Inl TypeError
   \<and> Condition_init decimal_float [[''price''], [''max'', ''6''], [''0.98'']] ''buy'' = Inl TypeError"
  by code_simp




section \<open>Properties of the indicators\<close>

text \<open>
  \<open>ema(n)\<close> on any window of prices without NaN: the first \<open>n\<close> rows are dropped and
  row \<open>k\<close> holds \<open>ema_value n ps k\<close> (\<open>ema_rows\<close>).
\<close>

lemma str_nat_digits: "set (str_nat n) \<subseteq> set ''0123456789''"
proof (induction n rule: str_nat.induct)
  case (1 n)
  have d: "''0123456789'' ! k \<in> set ''0123456789''" if "k < 10" for k
    using that by (intro nth_mem) simp
  show ?case
  proof (cases "n < 10")
    case True
    then show ?thesis using d [of n] by (subst str_nat.simps) simp
  next
    case False
    have "n mod 10 < 10" by simp
    from d [OF this] 1 [OF False] False show ?thesis
      by (subst str_nat.simps) simp
  qed
qed

lemma dropWhile_none: "\<forall>x \<in> set xs. \<not> P x \<Longrightarrow> dropWhile P xs = xs"
  by (cases xs) auto

lemma strip_prefixed:
  assumes "c \<notin> set s"
  shows "strip c (c # s) = s"
proof -
  have a: "dropWhile (\<lambda>x. x = c) s = s"
    by (rule dropWhile_none) (use assms in auto)
  have b: "dropWhile (\<lambda>x. x = c) (rev s) = rev s"
    by (rule dropWhile_none) (use assms in auto)
  show ?thesis by (simp add: strip_def a b)
qed

lemma strip_str_int: "strip (CHR ''_'') (CHR ''_'' # str_int (int n)) = str_int (int n)"
proof -
  have "CHR ''_'' \<notin> set (str_nat n)" using str_nat_digits [of n] by auto
  then show ?thesis by (simp add: str_int_def strip_prefixed)
qed

lemma those_map_Some: "those (map Some xs) = Some xs"
  by (induction xs) auto

lemma window_cells_Some:
  "window_cells n (map Some ps) k =
     (if n = 0 \<or> Suc k < n then None else Some (take n (drop (Suc k - n) ps)))"
  by (simp add: window_cells_def take_map drop_map those_map_Some)

lemma rolling_Some:
  "rolling f n (map Some ps) =
     map (\<lambda>k. if n = 0 \<or> Suc k < n then None else Some (f (take n (drop (Suc k - n) ps))))
         [0..<length ps]"
  by (simp add: rolling_def window_cells_Some)

lemma shift1_nth:
  "k < length xs \<Longrightarrow> shift1 xs ! k = (if k = 0 then None else xs ! (k - 1))"
  by (simp add: shift1_def nth_Cons')

lemma length_shift1: "length (shift1 xs) = length xs"
  by (simp add: shift1_def)

lemma keep_rows_from:
  "keep_rows (map (\<lambda>k. n \<le> k) [0..<length xs]) xs = drop n xs"
proof (induction xs rule: rev_induct)
  case Nil
  then show ?case by (simp add: keep_rows_def)
next
  case (snoc x xs)
  have "keep_rows (map (\<lambda>k. n \<le> k) [0..<length (xs @ [x])]) (xs @ [x])
      = keep_rows (map (\<lambda>k. n \<le> k) [0..<length xs]) xs @ (if n \<le> length xs then [x] else [])"
    by (simp add: keep_rows_def)
  then show ?case using snoc by simp
qed

lemma ema_column:
  assumes "0 < n"
  shows "plus_cells (times_cells (map Some ps) m)
           (times_cells (shift1 (rolling mean n (map Some ps))) m')
       = map (\<lambda>k. if k < n then None
                  else Some (ps ! k * m + mean (take n (drop (k - n) ps)) * m'))
             [0..<length ps]"
proof (rule nth_equalityI)
  show "length (plus_cells (times_cells (map Some ps) m)
           (times_cells (shift1 (rolling mean n (map Some ps))) m'))
      = length (map (\<lambda>k. if k < n then None
                  else Some (ps ! k * m + mean (take n (drop (k - n) ps)) * m'))
             [0..<length ps])"
    by (simp add: plus_cells_def times_cells_def length_shift1 rolling_def)
next
  fix k
  assume "k < length (plus_cells (times_cells (map Some ps) m)
           (times_cells (shift1 (rolling mean n (map Some ps))) m'))"
  then have k: "k < length ps"
    by (simp add: plus_cells_def times_cells_def length_shift1 rolling_def)
  have lr: "length (rolling mean n (map Some ps)) = length ps" by (simp add: rolling_def)
  have sh: "shift1 (rolling mean n (map Some ps)) ! k
      = (if k < n then None else Some (mean (take n (drop (k - n) ps))))"
  proof (cases k)
    case 0
    then show ?thesis using k assms lr by (simp add: shift1_nth)
  next
    case (Suc j)
    then have "j < length ps" using k by simp
    then show ?thesis using k assms lr Suc
      by (simp add: shift1_nth rolling_Some) 
  qed
  show "plus_cells (times_cells (map Some ps) m)
           (times_cells (shift1 (rolling mean n (map Some ps))) m') ! k
      = map (\<lambda>k. if k < n then None
                  else Some (ps ! k * m + mean (take n (drop (k - n) ps)) * m'))
             [0..<length ps] ! k"
    using k lr by (simp add: plus_cells_def times_cells_def length_shift1 sh)
qed


lemma dropna_single:
  assumes "length ts = length ps" and "0 < n"
  shows "dropna \<lparr>idx = ts, cols = [(c, map (\<lambda>k. if k < n then None else Some (f k)) [0..<length ps])]\<rparr>
       = \<lparr>idx = drop n ts, cols = [(c, map (\<lambda>k. Some (f k)) [n..<length ps])]\<rparr>"
proof -
  let ?E = "map (\<lambda>k. if k < n then None else Some (f k)) [0..<length ps]"
  have m: "map (row_complete \<lparr>idx = ts, cols = [(c, ?E)]\<rparr>) [0..<length ts]
         = map (\<lambda>k. n \<le> k) [0..<length ts]"
    using assms(1) by (auto simp: row_complete_def)
  have e: "keep_rows (map (\<lambda>k. n \<le> k) [0..<length ts]) ?E = drop n ?E"
    using keep_rows_from [of n ?E] assms(1) by simp
  have d: "drop n ?E = map (\<lambda>k. Some (f k)) [n..<length ps]"
    by (auto simp: drop_map)
  show ?thesis
    by (simp add: dropna_def Let_def m keep_rows_from e d)
qed

lemma ema_rows:
  assumes n: "0 < n" and len: "length ts = length ps" and ne: "ps \<noteq> []"
      and obj: "cf_obj cf = \<lparr>idx = ts, cols = [(''price'', map Some ps)]\<rparr>"
  shows "fst (ema (Some (int n)) True True cf)
       = Inr \<lparr>idx = drop n ts,
              cols = [(''ema (i=1, n='' @ str_int (int n) @ '')'',
                       map (\<lambda>k. Some (ema_value n ps k)) [n..<length ps])]\<rparr>"
proof -
  let ?m = "2 / (of_nat n + 1) :: rat"
  let ?sma = "''sma (n='' @ str_int (int n) @ '')''"
  let ?ema = "''ema (i=1, n='' @ str_int (int n) @ '')''"
  let ?E = "map (\<lambda>k. if k < n then None
                  else Some (ps ! k * ?m + mean (take n (drop (k - n) ps)) * (1 - ?m)))
             [0..<length ps]"
  have tsne: "ts \<noteq> []" using len ne by auto
  have c: "cache \<lparr>idx = ts, cols = [(?ema, ?E)]\<rparr> cf
      = (Inr (dropna \<lparr>idx = ts, cols = [(?ema, ?E)]\<rparr>),
         cf\<lparr>cf_calcs := fold (\<lambda>(k, v). AList.update k v)
              (row_at \<lparr>idx = ts, cols = [(?ema, ?E)]\<rparr> (length ts - 1)) (cf_calcs cf)\<rparr>)"
    using tsne by (simp add: cache_def last_record_def)
  have col: "plus_cells (times_cells (map Some ps) ?m)
           (times_cells (shift1 (rolling mean n (map Some ps))) (1 - ?m)) = ?E"
    by (rule ema_column [OF n])
  have e: "ema (Some (int n)) True True cf = cache \<lparr>idx = ts, cols = [(?ema, ?E)]\<rparr> cf"
    using n
    by (simp add: ema_def Let_def obj strip_str_int map_columns_def rename_def concat_columns_def
        getattr_def set_column_def drop_column_def labels_def bind_err_def col)
  have d: "dropna \<lparr>idx = ts, cols = [(?ema, ?E)]\<rparr>
      = \<lparr>idx = drop n ts, cols = [(?ema, map (\<lambda>k. Some (ema_value n ps k)) [n..<length ps])]\<rparr>"
    unfolding ema_value_def
    by (rule dropna_single [OF len n, of ?ema
          "\<lambda>k. ps ! k * ?m + mean (take n (drop (k - n) ps)) * (1 - ?m)"])
  show ?thesis by (simp only: e c d fst_conv)
qed

text \<open>
  C1. On the window \<open>{0: 10, 1: 12, 2: 14, 3: 16}\<close>, \<open>ema(2)\<close> returns the series
  \<open>{2: 13, 3: 15}\<close> (and caches 15): the trailing means of two prices are
  \<open>NaN, 11, 13, 15\<close>, shifted by one row \<open>NaN, NaN, 11, 13\<close>; with the multiplier
  \<open>2 / (2 + 1)\<close> row 2 is \<open>14 * m + 11 * (1 - m) = 13\<close> and row 3 is
  \<open>16 * m + 13 * (1 - m) = 15\<close>; rows 0 and 1 have no shifted mean and are dropped.
\<close>

theorem ema_window_example:
  "ema (Some 2) True True
     \<lparr>cf_asset_id = None, cf_i = 0, cf_e = 1, cf_calcs = [],
      cf_obj = \<lparr>idx = [0, 1, 2, 3], cols = [(''price'', [Some 10, Some 12, Some 14, Some 16])]\<rparr>,
      cf_src = [], cf_is_backtest = False, cf_src_backtest = [], cf_n = 0\<rparr>
   = (Inr \<lparr>idx = [2, 3], cols = [(''ema (i=1, n=2)'', [Some 13, Some 15])]\<rparr>,
      \<lparr>cf_asset_id = None, cf_i = 0, cf_e = 1, cf_calcs = [(''ema (i=1, n=2)'', Some 15)],
       cf_obj = \<lparr>idx = [0, 1, 2, 3], cols = [(''price'', [Some 10, Some 12, Some 14, Some 16])]\<rparr>,
       cf_src = [], cf_is_backtest = False, cf_src_backtest = [], cf_n = 0\<rparr>)
   \<and> rolling mean 2 [Some 10, Some 12, Some 14, Some 16] = [None, Some 11, Some 13, Some 15]
   \<and> shift1 [None, Some 11, Some 13, Some 15] = [None, None, Some 11, Some 13]
   \<and> (13 :: rat) = 14 * (2 / (2 + 1)) + 11 * (1 - 2 / (2 + 1))
   \<and> (15 :: rat) = 16 * (2 / (2 + 1)) + 13 * (1 - 2 / (2 + 1))"
  by code_simp

text \<open>
  C4. The claim: \<open>spread(n)\<close> returns \<open>max(n)\<close> less \<open>min(n)\<close>. \<open>max(n)\<close> labels its column
  \<open>max (n=2)\<close> (or \<open>max (n=hist)\<close>) and \<open>spread\<close> reads the attribute \<open>max_hist\<close>, a
  label no column has: on the window \<open>{0: 10, 1: 12, 2: 14}\<close> with \<open>n = 2\<close>, and on
  \<open>{0: 10, 1: 12, 2: 9}\<close> with \<open>n = 0\<close>, \<open>spread\<close> raises AttributeError where the
  difference of the two columns is \<open>{1: 2, 2: 2}\<close> and \<open>{0: 0, 1: 2, 2: 3}\<close>.
  No call of \<open>spread\<close> returns a result (\<open>spread_never_returns\<close>).
\<close>

theorem spread_raises_AttributeError:
  "fst (spread (Some 2)
     \<lparr>cf_asset_id = None, cf_i = 0, cf_e = 1, cf_calcs = [],
      cf_obj = \<lparr>idx = [0, 1, 2], cols = [(''price'', [Some 10, Some 12, Some 14])]\<rparr>,
      cf_src = [], cf_is_backtest = False, cf_src_backtest = [], cf_n = 0\<rparr>) = Inl AttributeError
   \<and> fst (spread_spec (Some 2)
     \<lparr>cf_asset_id = None, cf_i = 0, cf_e = 1, cf_calcs = [],
      cf_obj = \<lparr>idx = [0, 1, 2], cols = [(''price'', [Some 10, Some 12, Some 14])]\<rparr>,
      cf_src = [], cf_is_backtest = False, cf_src_backtest = [], cf_n = 0\<rparr>)
     = Inr \<lparr>idx = [1, 2], cols = [(''spread'', [Some 2, Some 2])]\<rparr>
   \<and> fst (spread (Some 0)
     \<lparr>cf_asset_id = None, cf_i = 0, cf_e = 1, cf_calcs = [],
      cf_obj = \<lparr>idx = [0, 1, 2], cols = [(''price'', [Some 10, Some 12, Some 9])]\<rparr>,
      cf_src = [], cf_is_backtest = False, cf_src_backtest = [], cf_n = 0\<rparr>) = Inl AttributeError
   \<and> fst (spread_spec (Some 0)
     \<lparr>cf_asset_id = None, cf_i = 0, cf_e = 1, cf_calcs = [],
      cf_obj = \<lparr>idx = [0, 1, 2], cols = [(''price'', [Some 10, Some 12, Some 9])]\<rparr>,
      cf_src = [], cf_is_backtest = False, cf_src_backtest = [], cf_n = 0\<rparr>)
     = Inr \<lparr>idx = [0, 1, 2], cols = [(''spread'', [Some 0, Some 2, Some 3])]\<rparr>"
  by code_simp

lemma spread_never_returns: "\<exists>e. fst (spread n cf) = Inl e"
proof (cases n)
  case None
  then show ?thesis by (simp add: spread_def py_raise_def)
next
  case (Some k)
  show ?thesis
    unfolding spread_def Some option.case py_bind_def py_raise_def cache_series_def
    by (auto split: prod.splits sum.splits option.splits)
qed

section \<open>Properties of the live and the back-test update\<close>

lemma py_min_Min: "d \<noteq> [] \<Longrightarrow> py_min d = Inr (Min (fst ` set d))"
proof -
  assume d: "d \<noteq> []"
  then obtain p ps where c: "d = p # ps" by (cases d) auto
  have "fold min (map fst ps) (fst p) = Min (set (fst p # map fst ps))"
    by (rule Min.set_eq_fold [symmetric])
  then show ?thesis by (simp add: py_min_def c)
qed

lemma py_min_empty: "py_min [] = Inl ValueError"
  by (simp add: py_min_def)

lemma map_of_Min_key:
  assumes "d \<noteq> []"
  shows "\<exists>v. map_of d (Min (fst ` set d)) = Some v"
proof -
  have "Min (fst ` set d) \<in> fst ` set d"
    using assms by (intro Min_in) auto
  then show ?thesis
    by (metis map_of_eq_None_iff not_Some_eq)
qed

lemma delete_nonempty:
  assumes "1 < card (fst ` set d)"
  shows "AList.delete k d \<noteq> []"
proof
  assume "AList.delete k d = []"
  then have "\<forall>p \<in> set d. fst p = k"
    by (auto simp: AList.delete_eq filter_empty_conv)
  then have "fst ` set d \<subseteq> {k}" by auto
  then have "card (fst ` set d) \<le> card {k}" by (intro card_mono) auto
  with assms show False by simp
qed

lemma src_live_cases:
  assumes "fst (src False False cf) = Inr live"
  shows "(cf_src cf \<noteq> [] \<and> live = cf_src cf \<and> src False True cf = (Inr (cf_src_backtest cf), cf))
       \<or> (cf_src cf = [] \<and> to_dict_index (cf_obj cf) = Inr live
            \<and> src False True cf = (Inr (cf_src_backtest cf), cf\<lparr>cf_src := live\<rparr>))"
  using assms by (auto simp: src_def Let_def split: sum.splits if_splits)

lemma src_loaded:
  "cf_src cf \<noteq> [] \<Longrightarrow> src False b cf = (Inr (if \<not> b then cf_src cf else cf_src_backtest cf), cf)"
  by (simp add: src_def)

lemma update_backtest_loaded:
  assumes live: "cf_src cf = live" and q: "cf_src_backtest cf = queue" and qne: "queue \<noteq> []"
    and two: "1 < card (fst ` set live)"
    and pq: "map_of queue (Min (fst ` set queue)) = Some price"
  shows "update_backtest cf =
     (Inr (), cf\<lparr>cf_src := AList.update (Min (fst ` set queue)) price (AList.delete (Min (fst ` set live)) live),
                cf_src_backtest := AList.delete (Min (fst ` set queue)) queue,
                cf_obj := from_dict_index
                  (AList.update (Min (fst ` set queue)) price (AList.delete (Min (fst ` set live)) live))\<rparr>)"
proof -
  let ?tl = "Min (fst ` set live)" and ?tq = "Min (fst ` set queue)"
  have lne: "live \<noteq> []" using two by auto
  have dne: "AList.delete ?tl live \<noteq> []" using two by (rule delete_nonempty)
  obtain v where v: "map_of live ?tl = Some v" using map_of_Min_key [OF lne] by blast
  have f1: "first True cf = (Inr ?tq, cf)"
    using live lne q qne by (simp add: first_def py_bind_def src_loaded lift_err_def py_min_Min)
  have f2: "first False cf = (Inr ?tl, cf)"
    using live lne by (simp add: first_def py_bind_def src_loaded lift_err_def py_min_Min)
  have p1: "pop_src ?tl cf = (Inr v, cf\<lparr>cf_src := AList.delete ?tl live\<rparr>)"
    using live v by (simp add: pop_src_def)
  have f3: "first True (cf\<lparr>cf_src := AList.delete ?tl live\<rparr>) = (Inr ?tq, cf\<lparr>cf_src := AList.delete ?tl live\<rparr>)"
    using dne q qne by (simp add: first_def py_bind_def src_loaded lift_err_def py_min_Min)
  have p2: "pop_src_backtest ?tq (cf\<lparr>cf_src := AList.delete ?tl live\<rparr>)
      = (Inr price, cf\<lparr>cf_src := AList.delete ?tl live, cf_src_backtest := AList.delete ?tq queue\<rparr>)"
    using q pq by (simp add: pop_src_backtest_def)
  show ?thesis
    unfolding update_backtest_def except_ValueError_def
    by (simp add: py_bind_def f1 f2 p1 f3 p2 set_src_def from_dict_def)
qed

lemma src_fill:
  assumes "cf_src cf = []" and "to_dict_index (cf_obj cf) = Inr live"
  shows "src False b cf = (Inr (if \<not> b then live else cf_src_backtest cf), cf\<lparr>cf_src := live\<rparr>)"
  using assms by (simp add: src_def Let_def)

lemma update_backtest_unloaded:
  assumes e: "cf_src cf = []" and l: "to_dict_index (cf_obj cf) = Inr live" and "live \<noteq> []"
  shows "update_backtest cf = update_backtest (cf\<lparr>cf_src := live\<rparr>)"
proof -
  have "first True cf = first True (cf\<lparr>cf_src := live\<rparr>)"
    using assms by (simp add: first_def py_bind_def src_fill src_loaded)
  then show ?thesis
    unfolding update_backtest_def except_ValueError_def py_bind_def by simp
qed


text \<open>
  C3, as amended. In back-test mode, with a replay queue that is not empty and at least two
  timestamps in the live buffer, \<open>update\<close> removes the oldest timestamp of the live buffer,
  removes the oldest entry of the replay queue, and files that entry's price in the live
  buffer under the replay entry's own timestamp; the frame is rebuilt from the result.
\<close>

theorem update_backtest_moves_replay_entry:
  assumes live: "fst (src False False cf) = Inr live"
      and two: "1 < card (fst ` set live)"
      and q: "cf_src_backtest cf = queue" and qne: "queue \<noteq> []"
      and oldest: "oldest = Min (fst ` set live)" and nxt: "nxt = Min (fst ` set queue)"
  shows "\<exists>cf' price. update_backtest cf = (Inr (), cf')
     \<and> map_of queue nxt = Some price
     \<and> map_of (cf_src cf') = ((map_of live)(oldest := None))(nxt \<mapsto> price)
     \<and> map_of (cf_src_backtest cf') = (map_of queue)(nxt := None)
     \<and> cf_obj cf' = from_dict_index (cf_src cf')"
proof -
  obtain price where pq: "map_of queue (Min (fst ` set queue)) = Some price"
    using map_of_Min_key [OF qne] by blast
  have lne: "live \<noteq> []" using two by auto
  let ?cf = "cf\<lparr>cf_src := live\<rparr>"
  have eq: "update_backtest cf = update_backtest ?cf"
  proof (cases "cf_src cf = []")
    case True
    with src_live_cases [OF live] have "to_dict_index (cf_obj cf) = Inr live" by auto
    from update_backtest_unloaded [OF True this lne] show ?thesis .
  next
    case False
    with src_live_cases [OF live] have "live = cf_src cf" by auto
    then show ?thesis by simp
  qed
  have "update_backtest ?cf =
     (Inr (), ?cf\<lparr>cf_src := AList.update (Min (fst ` set queue)) price (AList.delete (Min (fst ` set live)) live),
                cf_src_backtest := AList.delete (Min (fst ` set queue)) queue,
                cf_obj := from_dict_index
                  (AList.update (Min (fst ` set queue)) price (AList.delete (Min (fst ` set live)) live))\<rparr>)"
    by (rule update_backtest_loaded [OF _ _ qne two pq]) (simp_all add: q)
  with eq pq show ?thesis
    by (simp add: oldest nxt update_conv' delete_conv')
qed


theorem update_backtest_moves_replay_entry_witness:
  "fst (src False False
     \<lparr>cf_asset_id = Some ''BTC-USD'', cf_i = 0, cf_e = 1, cf_calcs = [],
      cf_obj = \<lparr>idx = [0, 1], cols = [(''price'', [Some 10, Some 12])]\<rparr>,
      cf_src = [(0, [(''price'', Some 10)]), (1, [(''price'', Some 12)])],
      cf_is_backtest = True,
      cf_src_backtest = [(5, [(''price'', Some 20)]), (6, [(''price'', Some 21)])], cf_n = 0\<rparr>) = Inr [(0, [(''price'', Some 10)]), (1, [(''price'', Some 12)])]
   \<and> 1 < card (fst ` set [(0 :: int, [(''price'', Some (10 :: rat))]), (1, [(''price'', Some 12)])])
   \<and> (\<exists>cf'. update_backtest
     \<lparr>cf_asset_id = Some ''BTC-USD'', cf_i = 0, cf_e = 1, cf_calcs = [],
      cf_obj = \<lparr>idx = [0, 1], cols = [(''price'', [Some 10, Some 12])]\<rparr>,
      cf_src = [(0, [(''price'', Some 10)]), (1, [(''price'', Some 12)])],
      cf_is_backtest = True,
      cf_src_backtest = [(5, [(''price'', Some 20)]), (6, [(''price'', Some 21)])], cf_n = 0\<rparr> = (Inr (), cf')
       \<and> map_of (cf_src cf') 0 = None
       \<and> map_of (cf_src cf') 1 = Some [(''price'', Some 12)]
       \<and> map_of (cf_src cf') 5 = Some [(''price'', Some 20)]
       \<and> map_of (cf_src_backtest cf') 5 = None
       \<and> map_of (cf_src_backtest cf') 6 = Some [(''price'', Some 21)])"
proof -
  let ?cf = "\<lparr>cf_asset_id = Some ''BTC-USD'', cf_i = 0, cf_e = 1, cf_calcs = [],
      cf_obj = \<lparr>idx = [0, 1], cols = [(''price'', [Some 10, Some 12])]\<rparr>,
      cf_src = [(0, [(''price'', Some 10)]), (1, [(''price'', Some 12)])],
      cf_is_backtest = True,
      cf_src_backtest = [(5, [(''price'', Some 20)]), (6, [(''price'', Some 21)])], cf_n = 0\<rparr>"
  let ?live = "[(0 :: int, [(''price'', Some (10 :: rat))]), (1, [(''price'', Some 12)])]"
  let ?queue = "[(5 :: int, [(''price'', Some (20 :: rat))]), (6, [(''price'', Some 21)])]"
  have h1: "fst (src False False ?cf) = Inr ?live" by (simp add: src_def)
  have h2: "1 < card (fst ` set ?live)" by simp
  have h3: "cf_src_backtest ?cf = ?queue" "?queue \<noteq> []" by simp_all
  have h4: "(0 :: int) = Min (fst ` set ?live)" "(5 :: int) = Min (fst ` set ?queue)" by simp_all
  from update_backtest_moves_replay_entry [OF h1 h2 h3 h4]
  obtain cf' price where r: "update_backtest ?cf = (Inr (), cf')"
    "map_of ?queue 5 = Some price"
    "map_of (cf_src cf') = ((map_of ?live)(0 := None))(5 \<mapsto> price)"
    "map_of (cf_src_backtest cf') = (map_of ?queue)(5 := None)"
    by blast
  from r(2) have p: "price = [(''price'', Some 20)]" by simp
  have "map_of (cf_src cf') 0 = None" "map_of (cf_src cf') 1 = Some [(''price'', Some 12)]"
    "map_of (cf_src cf') 5 = Some [(''price'', Some 20)]"
    "map_of (cf_src_backtest cf') 5 = None" "map_of (cf_src_backtest cf') 6 = Some [(''price'', Some 21)]"
    by (simp_all add: r(3) r(4) p)
  with h1 h2 r(1) show ?thesis by blast
qed

text \<open>
  C3, as claimed: the price would be filed under the timestamp removed from the live
  buffer. With the live buffer \<open>{0: 10, 1: 12}\<close> and the replay queue \<open>{5: 20, 6: 21}\<close>
  the price 20 is filed under 5, the replay entry's timestamp, and nothing is under 0.
\<close>

theorem update_backtest_keys_by_replay_counterexample:
  "update_backtest
     \<lparr>cf_asset_id = Some ''BTC-USD'', cf_i = 0, cf_e = 1, cf_calcs = [],
      cf_obj = \<lparr>idx = [0, 1], cols = [(''price'', [Some 10, Some 12])]\<rparr>,
      cf_src = [(0, [(''price'', Some 10)]), (1, [(''price'', Some 12)])],
      cf_is_backtest = True,
      cf_src_backtest = [(5, [(''price'', Some 20)]), (6, [(''price'', Some 21)])], cf_n = 0\<rparr>
   = (Inr (),
     \<lparr>cf_asset_id = Some ''BTC-USD'', cf_i = 0, cf_e = 1, cf_calcs = [],
      cf_obj = \<lparr>idx = [1, 5], cols = [(''price'', [Some 12, Some 20])]\<rparr>,
      cf_src = [(1, [(''price'', Some 12)]), (5, [(''price'', Some 20)])],
      cf_is_backtest = True,
      cf_src_backtest = [(6, [(''price'', Some 21)])], cf_n = 0\<rparr>)
   \<and> map_of (cf_src
     \<lparr>cf_asset_id = Some ''BTC-USD'', cf_i = 0, cf_e = 1, cf_calcs = [],
      cf_obj = \<lparr>idx = [1, 5], cols = [(''price'', [Some 12, Some 20])]\<rparr>,
      cf_src = [(1, [(''price'', Some 12)]), (5, [(''price'', Some 20)])],
      cf_is_backtest = True,
      cf_src_backtest = [(6, [(''price'', Some 21)])], cf_n = 0\<rparr>) 0 = None
   \<and> map_of (cf_src
     \<lparr>cf_asset_id = Some ''BTC-USD'', cf_i = 0, cf_e = 1, cf_calcs = [],
      cf_obj = \<lparr>idx = [1, 5], cols = [(''price'', [Some 12, Some 20])]\<rparr>,
      cf_src = [(1, [(''price'', Some 12)]), (5, [(''price'', Some 20)])],
      cf_is_backtest = True,
      cf_src_backtest = [(6, [(''price'', Some 21)])], cf_n = 0\<rparr>) 5 = Some [(''price'', Some 20)]"
  by code_simp

text \<open>
  C8. In back-test mode with an empty replay queue, \<open>update\<close> raises
  BackTestCompletedError; the frame and the replay queue are as before, and so is the live
  buffer that \<open>src()\<close> returns. The object is untouched when its live dict was loaded;
  an empty live dict has been filled from the frame by the first \<open>src()\<close> call.
\<close>

theorem update_backtest_exhausted:
  assumes "cf_src_backtest cf = []"
  shows "\<exists>cf'. update_backtest cf = (Inl BackTestCompletedError, cf')
     \<and> cf_obj cf' = cf_obj cf
     \<and> cf_src_backtest cf' = cf_src_backtest cf
     \<and> fst (src False False cf') = fst (src False False cf)
     \<and> (cf_src cf = [] \<or> cf' = cf)"
proof (cases "cf_src cf = []")
  case False
  then have "first True cf = (Inl ValueError, cf)"
    using assms by (simp add: first_def py_bind_def src_loaded lift_err_def py_min_empty)
  then have "update_backtest cf = (Inl BackTestCompletedError, cf)"
    unfolding update_backtest_def except_ValueError_def py_bind_def by simp
  then show ?thesis by simp
next
  case True
  show ?thesis
  proof (cases "to_dict_index (cf_obj cf)")
    case (Inl e)
    then have e: "e = ValueError" by (auto simp: to_dict_index_def split: if_splits)
    have "first True cf = (Inl ValueError, cf)"
      using True Inl e by (simp add: first_def py_bind_def src_def)
    then have "update_backtest cf = (Inl BackTestCompletedError, cf)"
      unfolding update_backtest_def except_ValueError_def py_bind_def by simp
    then show ?thesis by simp
  next
    case (Inr d)
    have "first True cf = (Inl ValueError, cf\<lparr>cf_src := d\<rparr>)"
      using True Inr assms by (simp add: first_def py_bind_def src_fill lift_err_def py_min_empty)
    then have u: "update_backtest cf = (Inl BackTestCompletedError, cf\<lparr>cf_src := d\<rparr>)"
      unfolding update_backtest_def except_ValueError_def py_bind_def by simp
    have "fst (src False False (cf\<lparr>cf_src := d\<rparr>)) = fst (src False False cf)"
      using True Inr by (simp add: src_def Let_def)
    with u True show ?thesis by simp
  qed
qed



theorem update_backtest_exhausted_witness:
  "cf_src_backtest
     \<lparr>cf_asset_id = Some ''BTC-USD'', cf_i = 0, cf_e = 1, cf_calcs = [],
      cf_obj = \<lparr>idx = [0, 1], cols = [(''price'', [Some 10, Some 12])]\<rparr>,
      cf_src = [(0, [(''price'', Some 10)]), (1, [(''price'', Some 12)])],
      cf_is_backtest = True, cf_src_backtest = [], cf_n = 0\<rparr> = []
   \<and> update_backtest
     \<lparr>cf_asset_id = Some ''BTC-USD'', cf_i = 0, cf_e = 1, cf_calcs = [],
      cf_obj = \<lparr>idx = [0, 1], cols = [(''price'', [Some 10, Some 12])]\<rparr>,
      cf_src = [(0, [(''price'', Some 10)]), (1, [(''price'', Some 12)])],
      cf_is_backtest = True, cf_src_backtest = [], cf_n = 0\<rparr>
   = (Inl BackTestCompletedError,
     \<lparr>cf_asset_id = Some ''BTC-USD'', cf_i = 0, cf_e = 1, cf_calcs = [],
      cf_obj = \<lparr>idx = [0, 1], cols = [(''price'', [Some 10, Some 12])]\<rparr>,
      cf_src = [(0, [(''price'', Some 10)]), (1, [(''price'', Some 12)])],
      cf_is_backtest = True, cf_src_backtest = [], cf_n = 0\<rparr>)
   \<and> cf_src_backtest
     \<lparr>cf_asset_id = Some ''BTC-USD'', cf_i = 0, cf_e = 1, cf_calcs = [],
      cf_obj = \<lparr>idx = [0, 1], cols = [(''price'', [Some 10, Some 12])]\<rparr>,
      cf_src = [], cf_is_backtest = True, cf_src_backtest = [], cf_n = 0\<rparr> = []
   \<and> (\<exists>cf'. update_backtest
     \<lparr>cf_asset_id = Some ''BTC-USD'', cf_i = 0, cf_e = 1, cf_calcs = [],
      cf_obj = \<lparr>idx = [0, 1], cols = [(''price'', [Some 10, Some 12])]\<rparr>,
      cf_src = [], cf_is_backtest = True, cf_src_backtest = [], cf_n = 0\<rparr> = (Inl BackTestCompletedError, cf')
       \<and> cf_obj cf' = \<lparr>idx = [0, 1], cols = [(''price'', [Some 10, Some 12])]\<rparr>
       \<and> cf_src_backtest cf' = []
       \<and> fst (src False False cf') = Inr [(0, [(''price'', Some 10)]), (1, [(''price'', Some 12)])])"
proof -
  let ?cf = "\<lparr>cf_asset_id = Some ''BTC-USD'', cf_i = 0, cf_e = 1, cf_calcs = [],
      cf_obj = \<lparr>idx = [0, 1], cols = [(''price'', [Some 10, Some 12])]\<rparr>,
      cf_src = [(0, [(''price'', Some 10)]), (1, [(''price'', Some 12)])],
      cf_is_backtest = True, cf_src_backtest = [], cf_n = 0\<rparr>"
  let ?cu = "\<lparr>cf_asset_id = Some ''BTC-USD'', cf_i = 0, cf_e = 1, cf_calcs = [],
      cf_obj = \<lparr>idx = [0, 1], cols = [(''price'', [Some 10, Some 12])]\<rparr>,
      cf_src = [], cf_is_backtest = True, cf_src_backtest = [], cf_n = 0\<rparr>"
  have h: "cf_src_backtest ?cf = []" by simp
  from update_backtest_exhausted [OF h]
  have a: "update_backtest ?cf = (Inl BackTestCompletedError, ?cf)" by auto
  have hu: "cf_src_backtest ?cu = []" by simp
  have s: "fst (src False False ?cu) = Inr [(0, [(''price'', Some 10)]), (1, [(''price'', Some 12)])]"
    by code_simp
  from update_backtest_exhausted [OF hu] s
  have b: "\<exists>cf'. update_backtest ?cu = (Inl BackTestCompletedError, cf')
       \<and> cf_obj cf' = \<lparr>idx = [0, 1], cols = [(''price'', [Some 10, Some 12])]\<rparr>
       \<and> cf_src_backtest cf' = []
       \<and> fst (src False False cf') = Inr [(0, [(''price'', Some 10)]), (1, [(''price'', Some 12)])]"
    by auto
  show ?thesis using h a hu b by blast
qed

lemma py_max_Max: "d \<noteq> [] \<Longrightarrow> py_max d = Inr (Max (fst ` set d))"
proof -
  assume d: "d \<noteq> []"
  then obtain p ps where c: "d = p # ps" by (cases d) auto
  have "fold max (map fst ps) (fst p) = Max (set (fst p # map fst ps))"
    by (rule Max.set_eq_fold [symmetric])
  then show ?thesis by (simp add: py_max_def c)
qed

lemma map_of_Max_key:
  assumes "d \<noteq> []"
  shows "\<exists>v. map_of d (Max (fst ` set d)) = Some v"
proof -
  have "Max (fst ` set d) \<in> fst ` set d"
    using assms by (intro Max_in) auto
  then show ?thesis
    by (metis map_of_eq_None_iff not_Some_eq)
qed

lemma update_window_result:
  assumes live: "cf_src cf = live" "live \<noteq> []"
      and new: "live' = (if Max (fst ` set live) < tmstmp
                         then AList.update tmstmp price (AList.delete (Max (fst ` set live)) live)
                         else AList.update tmstmp price live)"
  shows "update_window tmstmp price cf
           = (Inr (), cf\<lparr>cf_src := live', cf_obj := from_dict_index live'\<rparr>)"
proof -
  let ?m = "Max (fst ` set live)"
  obtain v where v: "map_of live ?m = Some v" using map_of_Max_key [OF live(2)] by blast
  have l: "last_key False cf = (Inr ?m, cf)"
    using live by (simp add: last_key_def py_bind_def src_loaded lift_err_def py_max_Max)
  have p: "pop_src ?m cf = (Inr v, cf\<lparr>cf_src := AList.delete ?m live\<rparr>)"
    using live v by (simp add: pop_src_def)
  show ?thesis
    unfolding update_window_def
    by (simp add: py_bind_def py_return_def l p set_src_def from_dict_def new live)
qed

lemma update_window_evicts_newest:
  "update_window 3 [(''price'', Some 16)]
     \<lparr>cf_asset_id = Some ''BTC-USD'', cf_i = 0, cf_e = 1, cf_calcs = [],
      cf_obj = \<lparr>idx = [0, 1, 2], cols = [(''price'', [Some 10, Some 12, Some 14])]\<rparr>,
      cf_src = [(0, [(''price'', Some 10)]), (1, [(''price'', Some 12)]), (2, [(''price'', Some 14)])],
      cf_is_backtest = False, cf_src_backtest = [], cf_n = 0\<rparr>
   = (Inr (),
      \<lparr>cf_asset_id = Some ''BTC-USD'', cf_i = 0, cf_e = 1, cf_calcs = [],
       cf_obj = \<lparr>idx = [0, 1, 3], cols = [(''price'', [Some 10, Some 12, Some 16])]\<rparr>,
       cf_src = [(0, [(''price'', Some 10)]), (1, [(''price'', Some 12)]), (3, [(''price'', Some 16)])],
       cf_is_backtest = False, cf_src_backtest = [], cf_n = 0\<rparr>)"
  by code_simp

lemma update_live_never_returns:
  assumes "\<not> cf_is_backtest cf"
  shows "\<exists>e. update asset latest cf = (Inl e, cf)"
proof (cases latest)
  case (Inl e)
  then show ?thesis using assms
    by (simp add: update_def Let_def py_bind_def lift_err_def bind_err_def)
next
  case (Inr t)
  then show ?thesis using assms
    by (simp add: update_def Let_def py_bind_def lift_err_def bind_err_def Msg_init_raises)
qed

text \<open>
  C2. The claim: a live \<open>update\<close> with a timestamp newer than every key removes the
  oldest entry and inserts the new price. \<open>update\<close> first unpacks the ticker message with
  \<open>Msg(...)\<close>, which raises TypeError (its constructor passes the keyword \<open>by_alias\<close> to
  \<open>type_convert\<close>); nothing is removed and nothing is inserted, in any live call
  (\<open>update_live_never_returns\<close>). On the window \<open>{0: 10, 1: 12, 2: 14}\<close>, the message of
  minute 3 (180 seconds) with the price 16 raises TypeError and the window is as before,
  where the claim has \<open>{1: 12, 2: 14, 3: 16}\<close>. The statements after it pop
  \<open>self.last()\<close>, the newest key, where \<open>_update_backtest\<close> pops \<open>self.first()\<close>: from
  that window they would make \<open>{0: 10, 1: 12, 3: 16}\<close> (\<open>update_window_evicts_newest\<close>,
  \<open>update_window_result\<close>).
\<close>

theorem update_live_raises_TypeError:
  "update None (Inr \<lparr>tk_price = 16, tk_time = 180\<rparr>)
     \<lparr>cf_asset_id = Some ''BTC-USD'', cf_i = 0, cf_e = 1, cf_calcs = [],
      cf_obj = \<lparr>idx = [0, 1, 2], cols = [(''price'', [Some 10, Some 12, Some 14])]\<rparr>,
      cf_src = [(0, [(''price'', Some 10)]), (1, [(''price'', Some 12)]), (2, [(''price'', Some 14)])],
      cf_is_backtest = False, cf_src_backtest = [], cf_n = 0\<rparr>
   = (Inl TypeError,
      \<lparr>cf_asset_id = Some ''BTC-USD'', cf_i = 0, cf_e = 1, cf_calcs = [],
       cf_obj = \<lparr>idx = [0, 1, 2], cols = [(''price'', [Some 10, Some 12, Some 14])]\<rparr>,
       cf_src = [(0, [(''price'', Some 10)]), (1, [(''price'', Some 12)]), (2, [(''price'', Some 14)])],
       cf_is_backtest = False, cf_src_backtest = [], cf_n = 0\<rparr>)"
  by code_simp

end
